theory Spec2Isabelle
  imports Main "HOL-Library.Word" "HOL-Library.Sublist"
begin

section \<open>Strings of the host language\<close>

text \<open>
  The plugin is TypeScript: a string is a sequence of 16-bit code units. Literals of the
  source are ASCII and are written \<open>lit ''...''\<close>.
\<close>

type_synonym jsstring = "16 word list"

definition lit :: "string \<Rightarrow> jsstring" where
  "lit s = map (\<lambda>c. of_nat (of_char c)) s"

text \<open>
  \<open>String.prototype.trim\<close> removes WhiteSpace and LineTerminator code points from both
  ends: TAB, LF, VT, FF, CR, SPACE, NBSP, U+1680, U+2000..U+200A, LS, PS, U+202F, U+205F,
  U+3000 and U+FEFF.
\<close>

definition isWhiteSpace :: "16 word \<Rightarrow> bool" where
  "isWhiteSpace c \<longleftrightarrow>
     c = 0x9 \<or> c = 0xA \<or> c = 0xB \<or> c = 0xC \<or> c = 0xD \<or> c = 0x20 \<or> c = 0xA0 \<or>
     c = 0x1680 \<or> (0x2000 \<le> c \<and> c \<le> 0x200A) \<or> c = 0x2028 \<or> c = 0x2029 \<or>
     c = 0x202F \<or> c = 0x205F \<or> c = 0x3000 \<or> c = 0xFEFF"

definition trim :: "jsstring \<Rightarrow> jsstring" where
  "trim s = rev (dropWhile isWhiteSpace (rev (dropWhile isWhiteSpace s)))"

text \<open>\<open>path.split("/")\<close>: the separator is the single code unit U+002F.\<close>

definition slash :: "16 word" where
  "slash = 0x2F"

fun split_on :: "16 word \<Rightarrow> jsstring \<Rightarrow> jsstring list" where
  "split_on sep [] = [[]]"
| "split_on sep (c # cs) =
     (if c = sep then [] # split_on sep cs
      else (case split_on sep cs of
              [] \<Rightarrow> [[c]]
            | p # ps \<Rightarrow> (c # p) # ps))"

text \<open>A template literal renders a non-negative integer in decimal.\<close>

definition digit :: "nat \<Rightarrow> 16 word" where
  "digit d = of_nat (48 + d)"

function toString :: "nat \<Rightarrow> jsstring" where
  "toString n = (if n < 10 then [digit n] else toString (n div 10) @ [digit (n mod 10)])"
  by pat_completeness auto
termination
  by (relation "measure (\<lambda>n. n)") auto

declare toString.simps [simp del]

section \<open>Data model\<close>

record Settings =
  webhookUrl :: jsstring
  enabled :: bool
  showNotices :: bool
  autoMode :: bool
  sendOnFileOpen :: bool
  sendOnLeafChange :: bool

definition DEFAULT_SETTINGS :: Settings where
  "DEFAULT_SETTINGS =
     \<lparr> webhookUrl = [], enabled = True, showNotices = False, autoMode = True,
       sendOnFileOpen = False, sendOnLeafChange = False \<rparr>"

datatype VaultEventType = Modify | Create | Delete | Rename

datatype HookEventType = Vault VaultEventType | File_open | Leaf_change

fun vaultEventName :: "VaultEventType \<Rightarrow> jsstring" where
  "vaultEventName Modify = lit ''modify''"
| "vaultEventName Create = lit ''create''"
| "vaultEventName Delete = lit ''delete''"
| "vaultEventName Rename = lit ''rename''"

fun hookEventName :: "HookEventType \<Rightarrow> jsstring" where
  "hookEventName (Vault v) = vaultEventName v"
| "hookEventName File_open = lit ''file-open''"
| "hookEventName Leaf_change = lit ''leaf-change''"

text \<open>
  The host's file objects. \<open>extension\<close> is optional because the source reads it through
  \<open>file.extension ?? null\<close>.
\<close>

record TFile =
  path :: jsstring
  name :: jsstring
  extension :: "jsstring option"

datatype TAbstractFile =
    AFile TFile
  | AFolder (folderPath: jsstring) (folderName: jsstring)

text \<open>
  The object handed to \<open>JSON.stringify\<close>: property names are the identifiers of the
  object literal, in the order they are written.
\<close>

datatype Json =
    JNull
  | JString jsstring
  | JNumber int
  | JObject "(string \<times> Json) list"

fun field :: "Json \<Rightarrow> string \<Rightarrow> Json option" where
  "field (JObject kvs) k = map_of kvs k"
| "field _ k = None"

fun keys :: "Json \<Rightarrow> string list" where
  "keys (JObject kvs) = map fst kvs"
| "keys _ = []"

section \<open>The host environment\<close>

text \<open>
  What the host answers when the plugin calls it: the vault's name, the clock, the
  adapter's \<open>stat\<close> (which may throw, resolve to null, or resolve to a record whose size
  may be missing), \<open>fetch\<close> (which resolves to a response or rejects) and the active file.
\<close>

datatype JsError = JsError jsstring

datatype Stat = Stat (size_of: "int option")

datatype StatOutcome = StatThrows JsError | StatResolves "Stat option"

record Response =
  ok :: bool
  status :: nat
  statusText :: jsstring

datatype FetchOutcome = FetchResolves Response | FetchRejects JsError

record Env =
  getName :: jsstring
  toISOString :: jsstring
  stat :: "jsstring \<Rightarrow> StatOutcome"
  fetch :: "jsstring \<Rightarrow> Json \<Rightarrow> FetchOutcome"
  getActiveFile :: "TFile option"

text \<open>
  What a handler does to the outside world, in order: an HTTP POST with
  \<open>Content-Type: application/json\<close> to a URL with a body, a notice, a line on the error
  console, a write of the settings.
\<close>

datatype Effect =
    Post jsstring Json
  | Notice jsstring
  | ConsoleError jsstring JsError
  | SaveData Settings

datatype Completion = Resolved | Rejected JsError

fun posts :: "Effect list \<Rightarrow> (jsstring \<times> Json) list" where
  "posts [] = []"
| "posts (Post u b # es) = (u, b) # posts es"
| "posts (_ # es) = posts es"

fun notices :: "Effect list \<Rightarrow> jsstring list" where
  "notices [] = []"
| "notices (Notice t # es) = t # notices es"
| "notices (_ # es) = notices es"

fun logged :: "Effect list \<Rightarrow> JsError list" where
  "logged [] = []"
| "logged (ConsoleError t e # es) = e # logged es"
| "logged (_ # es) = logged es"

section \<open>The plugin\<close>

text \<open>
  The host dispatches one handler at a time. A handler is modelled as running to
  completion against the settings and the host answers it starts with, and returns the
  effects it performs, in order. A function that may show a notice before it returns a
  value returns the value together with its effects.
\<close>

definition shouldSend :: "Settings \<Rightarrow> bool \<Rightarrow> bool \<times> Effect list" where
  "shouldSend s manual =
     (if \<not> enabled s then (False, [])
      else if \<not> manual \<and> \<not> autoMode s then (False, [])
      else if webhookUrl s = [] \<or> trim (webhookUrl s) = [] then
        (False,
         if showNotices s then [Notice (lit ''Simple Webhook: webhook URL not configured.'')]
         else [])
      else (True, []))"

definition getFileSizeSafe :: "Env \<Rightarrow> TFile \<Rightarrow> int option" where
  "getFileSizeSafe env file =
     (case stat env (path file) of
        StatThrows e \<Rightarrow> None
      | StatResolves None \<Rightarrow> None
      | StatResolves (Some st) \<Rightarrow> size_of st)"

definition getNameFromPath :: "jsstring \<Rightarrow> jsstring" where
  "getNameFromPath p =
     (let parts = split_on slash p
      in if parts = [] then p else parts ! (length parts - 1))"

definition sendWebhook :: "Settings \<Rightarrow> Env \<Rightarrow> Json \<Rightarrow> Effect list \<times> Completion" where
  "sendWebhook s env body =
     (let url = trim (webhookUrl s)
      in if url = [] then ([], Resolved)
         else
           (case fetch env url body of
              FetchResolves response \<Rightarrow>
                (Post url body #
                 (if \<not> ok response \<and> showNotices s then
                    [Notice (lit ''Simple Webhook: HTTP '' @ toString (status response) @
                             lit '' '' @ statusText response)]
                  else []),
                 Resolved)
            | FetchRejects error \<Rightarrow>
                (Post url body #
                 (if showNotices s then
                    [ConsoleError (lit ''Simple Webhook error:'') error,
                     Notice (lit ''Simple Webhook: request failed (see console).'')]
                  else []),
                 Resolved)))"

definition jsonOfOption :: "('a \<Rightarrow> Json) \<Rightarrow> 'a option \<Rightarrow> Json" where
  "jsonOfOption f v = (case v of None \<Rightarrow> JNull | Some x \<Rightarrow> f x)"

definition handleFileEvent ::
  "Settings \<Rightarrow> Env \<Rightarrow> VaultEventType \<Rightarrow> TAbstractFile \<Rightarrow> Effect list" where
  "handleFileEvent s env event file =
     (case shouldSend s False of
        (False, es) \<Rightarrow> es
      | (True, es) \<Rightarrow>
          (case file of
             AFolder p n \<Rightarrow> es
           | AFile f \<Rightarrow>
               es @ fst (sendWebhook s env
                 (JObject
                   [(''event'', JString (hookEventName (Vault event))),
                    (''vaultName'', JString (getName env)),
                    (''timestamp'', JString (toISOString env)),
                    (''path'', JString (path f)),
                    (''name'', JString (name f)),
                    (''extension'', jsonOfOption JString (extension f)),
                    (''size'', jsonOfOption JNumber (getFileSizeSafe env f))]))))"

definition handleRenameEvent ::
  "Settings \<Rightarrow> Env \<Rightarrow> TAbstractFile \<Rightarrow> jsstring \<Rightarrow> Effect list" where
  "handleRenameEvent s env file oldPath =
     (case shouldSend s False of
        (False, es) \<Rightarrow> es
      | (True, es) \<Rightarrow>
          (case file of
             AFolder p n \<Rightarrow> es
           | AFile f \<Rightarrow>
               es @ fst (sendWebhook s env
                 (JObject
                   [(''event'', JString (lit ''rename'')),
                    (''vaultName'', JString (getName env)),
                    (''timestamp'', JString (toISOString env)),
                    (''oldPath'', JString oldPath),
                    (''newPath'', JString (path f)),
                    (''oldName'', JString (getNameFromPath oldPath)),
                    (''newName'', JString (name f))]))))"

definition handleWorkspaceFileTrigger ::
  "Settings \<Rightarrow> Env \<Rightarrow> HookEventType \<Rightarrow> TFile \<Rightarrow> Effect list" where
  "handleWorkspaceFileTrigger s env label f =
     (if \<not> enabled s then []
      else if webhookUrl s = [] \<or> trim (webhookUrl s) = [] then
        (if showNotices s then [Notice (lit ''Simple Webhook: webhook URL not configured.'')]
         else [])
      else
        fst (sendWebhook s env
          (JObject
            [(''event'', JString (hookEventName label)),
             (''vaultName'', JString (getName env)),
             (''timestamp'', JString (toISOString env)),
             (''path'', JString (path f)),
             (''name'', JString (name f)),
             (''extension'', jsonOfOption JString (extension f)),
             (''size'', jsonOfOption JNumber (getFileSizeSafe env f))])))"

text \<open>
  The two workspace listeners registered by \<open>registerWorkspaceEvents\<close>. The argument is
  the file the host passes (\<open>file-open\<close>) or the file found at \<open>leaf?.view?.file\<close>
  (\<open>active-leaf-change\<close>), absent when there is none.
\<close>

definition onFileOpen :: "Settings \<Rightarrow> Env \<Rightarrow> TFile option \<Rightarrow> Effect list" where
  "onFileOpen s env file =
     (if \<not> sendOnFileOpen s then []
      else (case file of
              None \<Rightarrow> []
            | Some f \<Rightarrow> handleWorkspaceFileTrigger s env File_open f))"

definition onActiveLeafChange :: "Settings \<Rightarrow> Env \<Rightarrow> TFile option \<Rightarrow> Effect list" where
  "onActiveLeafChange s env file =
     (if \<not> sendOnLeafChange s then []
      else (case file of
              None \<Rightarrow> []
            | Some f \<Rightarrow> handleWorkspaceFileTrigger s env Leaf_change f))"

definition triggerManualWebhook :: "Settings \<Rightarrow> Env \<Rightarrow> Effect list" where
  "triggerManualWebhook s env =
     (case getActiveFile env of
        None \<Rightarrow> [Notice (lit ''Simple Webhook: no active note.'')]
      | Some f \<Rightarrow>
          (case shouldSend s True of
             (False, es) \<Rightarrow> es
           | (True, es) \<Rightarrow>
               (case sendWebhook s env
                  (JObject
                    [(''event'', JString (lit ''modify'')),
                     (''vaultName'', JString (getName env)),
                     (''timestamp'', JString (toISOString env)),
                     (''path'', JString (path f)),
                     (''name'', JString (name f)),
                     (''extension'', jsonOfOption JString (extension f)),
                     (''size'', jsonOfOption JNumber (getFileSizeSafe env f))]) of
                  (ws, Resolved) \<Rightarrow>
                    es @ ws @
                    [Notice (lit ''Simple Webhook: webhook sent for the active note.'')]
                | (ws, Rejected e) \<Rightarrow> es @ ws)))"

definition canUseManualControls :: "Settings \<Rightarrow> bool" where
  "canUseManualControls s \<longleftrightarrow> enabled s \<and> \<not> autoMode s"

text \<open>The command "Send webhook for the active note", run (not merely checked).\<close>

definition commandSendNow :: "Settings \<Rightarrow> Env \<Rightarrow> Effect list" where
  "commandSendNow s env =
     (if \<not> canUseManualControls s then [] else triggerManualWebhook s env)"

text \<open>The command "Toggle webhook sending".\<close>

definition commandToggle :: "Settings \<Rightarrow> Settings \<times> Effect list" where
  "commandToggle s =
     (let s' = s\<lparr>enabled := \<not> enabled s\<rparr>
      in (s',
          SaveData s' #
          (if showNotices s' then
             [Notice (lit ''Simple Webhook '' @
                      (if enabled s' then lit ''enabled'' else lit ''disabled''))]
           else [])))"

text \<open>The settings panel: the URL field's change handler and the "Send test" button.\<close>

definition onChangeWebhookUrl :: "Settings \<Rightarrow> jsstring \<Rightarrow> Settings \<times> Effect list" where
  "onChangeWebhookUrl s v =
     (let s' = s\<lparr>webhookUrl := trim v\<rparr> in (s', [SaveData s']))"

definition sendTestClick :: "Settings \<Rightarrow> Env \<Rightarrow> Effect list" where
  "sendTestClick s env =
     (let url = trim (webhookUrl s)
      in if url = [] then [Notice (lit ''Simple Webhook: configure the webhook URL first.'')]
         else
           (let body = JObject
                  [(''_event'', JString (lit ''test'')),
                   (''message'', JString (lit ''Simple Webhook test payload'')),
                   (''vaultName'', JString (getName env)),
                   (''timestamp'', JString (toISOString env))]
            in (case fetch env url body of
                  FetchResolves res \<Rightarrow>
                    [Post url body,
                     if ok res then Notice (lit ''Simple Webhook: test webhook sent.'')
                     else Notice (lit ''Simple Webhook: test failed (HTTP '' @
                                  toString (status res) @ lit '').'')]
                | FetchRejects e \<Rightarrow>
                    [Post url body,
                     ConsoleError (lit ''Simple Webhook test error'') e,
                     Notice (lit ''Simple Webhook: unable to send the test webhook.'')])))"

text \<open>
  Everything the host or the user can make the plugin do, and the listener or callback
  each one reaches (\<open>registerVaultEvents\<close>, \<open>registerWorkspaceEvents\<close>, the two commands,
  the ribbon icon's callback and the settings panel's button).
\<close>

datatype Operation =
    OnModify TAbstractFile
  | OnCreate TAbstractFile
  | OnDelete TAbstractFile
  | OnRename TAbstractFile jsstring
  | OnFileOpen "TFile option"
  | OnActiveLeafChange "TFile option"
  | CommandSendNow
  | RibbonClick
  | CommandToggle
  | SendTestClick

fun dispatch :: "Settings \<Rightarrow> Env \<Rightarrow> Operation \<Rightarrow> Settings \<times> Effect list" where
  "dispatch s env (OnModify file) = (s, handleFileEvent s env Modify file)"
| "dispatch s env (OnCreate file) = (s, handleFileEvent s env Create file)"
| "dispatch s env (OnDelete file) = (s, handleFileEvent s env Delete file)"
| "dispatch s env (OnRename file oldPath) = (s, handleRenameEvent s env file oldPath)"
| "dispatch s env (OnFileOpen file) = (s, onFileOpen s env file)"
| "dispatch s env (OnActiveLeafChange file) = (s, onActiveLeafChange s env file)"
| "dispatch s env CommandSendNow = (s, commandSendNow s env)"
| "dispatch s env RibbonClick = (s, triggerManualWebhook s env)"
| "dispatch s env CommandToggle = commandToggle s"
| "dispatch s env SendTestClick = (s, sendTestClick s env)"

text \<open>The effects of one operation.\<close>

definition effects :: "Settings \<Rightarrow> Env \<Rightarrow> Operation \<Rightarrow> Effect list" where
  "effects s env op = snd (dispatch s env op)"

section \<open>Vocabulary of the specification\<close>

text \<open>
  The host's vault events by kind, as \<open>registerVaultEvents\<close> subscribes to them: the old
  path matters to a rename only.
\<close>

fun vaultEvent :: "VaultEventType \<Rightarrow> TAbstractFile \<Rightarrow> jsstring \<Rightarrow> Operation" where
  "vaultEvent Modify file oldPath = OnModify file"
| "vaultEvent Create file oldPath = OnCreate file"
| "vaultEvent Delete file oldPath = OnDelete file"
| "vaultEvent Rename file oldPath = OnRename file oldPath"

text \<open>
  An operation is a triggered send when every test its handler makes before it looks at
  the destination URL lets it through.
\<close>

fun triggered :: "Settings \<Rightarrow> Env \<Rightarrow> Operation \<Rightarrow> bool" where
  "triggered s env (OnModify file) \<longleftrightarrow> enabled s \<and> autoMode s"
| "triggered s env (OnCreate file) \<longleftrightarrow> enabled s \<and> autoMode s"
| "triggered s env (OnDelete file) \<longleftrightarrow> enabled s \<and> autoMode s"
| "triggered s env (OnRename file oldPath) \<longleftrightarrow> enabled s \<and> autoMode s"
| "triggered s env (OnFileOpen file) \<longleftrightarrow> sendOnFileOpen s \<and> file \<noteq> None \<and> enabled s"
| "triggered s env (OnActiveLeafChange file) \<longleftrightarrow>
     sendOnLeafChange s \<and> file \<noteq> None \<and> enabled s"
| "triggered s env CommandSendNow \<longleftrightarrow>
     canUseManualControls s \<and> getActiveFile env \<noteq> None \<and> enabled s"
| "triggered s env RibbonClick \<longleftrightarrow> getActiveFile env \<noteq> None \<and> enabled s"
| "triggered s env CommandToggle \<longleftrightarrow> False"
| "triggered s env SendTestClick \<longleftrightarrow> True"

text \<open>The file whose payload carries a size field, for the operations that build one.\<close>

fun sizedFile :: "Env \<Rightarrow> Operation \<Rightarrow> TFile option" where
  "sizedFile env (OnModify (AFile f)) = Some f"
| "sizedFile env (OnCreate (AFile f)) = Some f"
| "sizedFile env (OnDelete (AFile f)) = Some f"
| "sizedFile env (OnFileOpen file) = file"
| "sizedFile env (OnActiveLeafChange file) = file"
| "sizedFile env CommandSendNow = getActiveFile env"
| "sizedFile env RibbonClick = getActiveFile env"
| "sizedFile env _ = None"

text \<open>The size lookup fails (throws) or returns no size.\<close>

fun noSize :: "StatOutcome \<Rightarrow> bool" where
  "noSize (StatThrows e) = True"
| "noSize (StatResolves None) = True"
| "noSize (StatResolves (Some st)) = (size_of st = None)"

text \<open>
  The final \<open>/\<close>-separated segment of a path: what follows the last \<open>/\<close>, the whole path
  when it has none.
\<close>

definition finalSegment :: "jsstring \<Rightarrow> jsstring" where
  "finalSegment p = rev (takeWhile (\<lambda>c. c \<noteq> slash) (rev p))"

text \<open>The two notices that report a missing destination.\<close>

definition configurationMissing :: "jsstring \<Rightarrow> bool" where
  "configurationMissing t \<longleftrightarrow>
     t = lit ''Simple Webhook: webhook URL not configured.'' \<or>
     t = lit ''Simple Webhook: configure the webhook URL first.''"

text \<open>The property names of a file payload, in order.\<close>

definition filePayloadKeys :: "string list" where
  "filePayloadKeys =
     [''event'', ''vaultName'', ''timestamp'', ''path'', ''name'', ''extension'', ''size'']"

section \<open>Scenarios\<close>

definition hookUrl :: jsstring where
  "hookUrl = lit ''https://x.test/hook''"

definition scenarioSettings :: Settings where
  "scenarioSettings =
     \<lparr> webhookUrl = hookUrl, enabled = True, showNotices = False, autoMode = True,
       sendOnFileOpen = False, sendOnLeafChange = False \<rparr>"

definition noteAB :: TFile where
  "noteAB = \<lparr> path = lit ''a/b.md'', name = lit ''b.md'', extension = Some (lit ''md'') \<rparr>"

definition noteNew :: TFile where
  "noteNew =
     \<lparr> path = lit ''folder/new.md'', name = lit ''new.md'', extension = Some (lit ''md'') \<rparr>"

definition response200 :: Response where
  "response200 = \<lparr> ok = True, status = 200, statusText = lit ''OK'' \<rparr>"

definition response500 :: Response where
  "response500 = \<lparr> ok = False, status = 500, statusText = lit ''Internal Server Error'' \<rparr>"

definition networkDown :: JsError where
  "networkDown = JsError (lit ''TypeError: Failed to fetch'')"

text \<open>A host where every file has size 10, the endpoint answers 200 and a note is active.\<close>

definition scenarioEnv :: Env where
  "scenarioEnv =
     \<lparr> getName = lit ''My Vault'', toISOString = lit ''2025-11-20T15:17:00.000Z'',
       stat = (\<lambda>p. StatResolves (Some (Stat (Some 10)))),
       fetch = (\<lambda>u b. FetchResolves response200),
       getActiveFile = Some noteAB \<rparr>"

text \<open>The same host with the endpoint answering 500, and with the network down.\<close>

definition failingEnv :: Env where
  "failingEnv = scenarioEnv\<lparr>fetch := (\<lambda>u b. FetchResolves response500)\<rparr>"

definition offlineEnv :: Env where
  "offlineEnv = scenarioEnv\<lparr>fetch := (\<lambda>u b. FetchRejects networkDown)\<rparr>"

text \<open>The same host when the file vanishes before its size is read.\<close>

definition racingEnv :: Env where
  "racingEnv = scenarioEnv\<lparr>stat := (\<lambda>p. StatThrows (JsError (lit ''ENOENT'')))\<rparr>"

text \<open>Settings with the master flag off, with notices on, with no URL, with a blank URL.\<close>

definition disabledSettings :: Settings where
  "disabledSettings = scenarioSettings\<lparr>enabled := False\<rparr>"

definition noisySettings :: Settings where
  "noisySettings = scenarioSettings\<lparr>showNotices := True\<rparr>"

definition unconfiguredSettings :: Settings where
  "unconfiguredSettings = noisySettings\<lparr>webhookUrl := []\<rparr>"

definition blankSettings :: Settings where
  "blankSettings = scenarioSettings\<lparr>webhookUrl := lit ''   ''\<rparr>"

text \<open>Settings that rely on the workspace triggers only.\<close>

definition focusSettings :: Settings where
  "focusSettings =
     scenarioSettings\<lparr>autoMode := False, sendOnFileOpen := True, sendOnLeafChange := True\<rparr>"

section \<open>Strings: trimming, splitting, rendering\<close>



lemma dropWhile_all_iff: "(\<forall>x\<in>set (dropWhile P xs). P x) \<longleftrightarrow> dropWhile P xs = []"
proof
  assume a: "\<forall>x\<in>set (dropWhile P xs). P x"
  show "dropWhile P xs = []"
  proof (rule ccontr)
    assume ne: "dropWhile P xs \<noteq> []"
    then have "\<not> P (hd (dropWhile P xs))" by (rule hd_dropWhile)
    moreover have "hd (dropWhile P xs) \<in> set (dropWhile P xs)" using ne by simp
    ultimately show False using a by blast
  qed
next
  assume e: "dropWhile P xs = []"
  show "\<forall>x\<in>set (dropWhile P xs). P x" unfolding e by simp
qed

lemma dropWhile_keeps: "xs \<noteq> [] \<Longrightarrow> \<not> P (hd xs) \<Longrightarrow> dropWhile P xs = xs"
  by (cases xs) auto

lemma trim_Nil_iff: "trim s = [] \<longleftrightarrow> (\<forall>c\<in>set s. isWhiteSpace c)"
proof -
  have "trim s = [] \<longleftrightarrow> (\<forall>x\<in>set (dropWhile isWhiteSpace s). isWhiteSpace x)"
    by (simp add: trim_def dropWhile_eq_Nil_conv)
  also have "\<dots> \<longleftrightarrow> dropWhile isWhiteSpace s = []" by (rule dropWhile_all_iff)
  also have "\<dots> \<longleftrightarrow> (\<forall>c\<in>set s. isWhiteSpace c)" by (simp add: dropWhile_eq_Nil_conv)
  finally show ?thesis .
qed

lemma trim_Nil [simp]: "trim [] = []"
  by (simp add: trim_def)

lemma trim_hd: "trim s \<noteq> [] \<Longrightarrow> \<not> isWhiteSpace (hd (trim s))"
proof -
  assume ne: "trim s \<noteq> []"
  let ?d = "dropWhile isWhiteSpace s"
  let ?e = "dropWhile isWhiteSpace (rev ?d)"
  have e: "?e \<noteq> []" using ne by (simp add: trim_def)
  have d: "?d \<noteq> []"
  proof
    assume "?d = []"
    then have "?e = []" by (simp only: rev.simps dropWhile.simps)
    with e show False by (rule notE)
  qed
  obtain ys where ys: "rev ?d = ys @ ?e"
    by (metis takeWhile_dropWhile_id)
  have "hd (trim s) = last ?e" using e by (simp add: trim_def hd_rev)
  also have "\<dots> = last (rev ?d)" using e ys by (metis last_appendR)
  also have "\<dots> = hd ?d" using d by (simp add: last_rev)
  finally show ?thesis using hd_dropWhile [OF d] by simp
qed

lemma trim_last: "trim s \<noteq> [] \<Longrightarrow> \<not> isWhiteSpace (last (trim s))"
proof -
  assume ne: "trim s \<noteq> []"
  let ?e = "dropWhile isWhiteSpace (rev (dropWhile isWhiteSpace s))"
  have e: "?e \<noteq> []" using ne by (simp add: trim_def)
  have "last (trim s) = hd ?e" using e by (simp add: trim_def last_rev)
  then show ?thesis using hd_dropWhile [OF e] by simp
qed

lemma trim_fixed:
  assumes "s = [] \<or> (\<not> isWhiteSpace (hd s) \<and> \<not> isWhiteSpace (last s))"
  shows "trim s = s"
proof (cases "s = []")
  case True then show ?thesis by simp
next
  case False
  with assms have h: "\<not> isWhiteSpace (hd s)" and l: "\<not> isWhiteSpace (last s)" by auto
  have 1: "dropWhile isWhiteSpace s = s" using False h by (rule dropWhile_keeps)
  have "rev s \<noteq> []" using False by simp
  moreover have "\<not> isWhiteSpace (hd (rev s))" using False l by (simp add: hd_rev)
  ultimately have 2: "dropWhile isWhiteSpace (rev s) = rev s" by (rule dropWhile_keeps)
  show ?thesis by (simp add: trim_def 1 2)
qed

lemma trim_idem: "trim (trim s) = trim s"
  by (rule trim_fixed) (use trim_hd trim_last in blast)

lemma split_on_not_Nil [simp]: "split_on sep p \<noteq> []"
  by (induction p) (auto split: list.splits)

lemma split_on_no_sep: "sep \<notin> set p \<Longrightarrow> split_on sep p = [p]"
  by (induction p) (auto split: list.splits)

lemma split_on_sep_many: "sep \<in> set p \<Longrightarrow> tl (split_on sep p) \<noteq> []"
  by (induction p) (auto split: list.splits)

lemma last_split_on: "last (split_on sep p) = rev (takeWhile (\<lambda>c. c \<noteq> sep) (rev p))"
proof (induction p)
  case Nil
  then show ?case by simp
next
  case (Cons c cs)
  show ?case
  proof (cases "sep \<in> set cs")
    case True
    then have tw: "takeWhile (\<lambda>c. c \<noteq> sep) (rev cs @ [c]) = takeWhile (\<lambda>c. c \<noteq> sep) (rev cs)"
      by (auto simp: takeWhile_append)
    obtain q qs where q: "split_on sep cs = q # qs" and qs: "qs \<noteq> []"
      using split_on_sep_many [OF True] by (cases "split_on sep cs") auto
    have "last (split_on sep (c # cs)) = last (split_on sep cs)"
      using q qs by simp
    then show ?thesis using Cons.IH tw by simp
  next
    case False
    then have tw: "takeWhile (\<lambda>c. c \<noteq> sep) (rev cs @ [c]) = rev cs @ takeWhile (\<lambda>c. c \<noteq> sep) [c]"
      by (auto simp: takeWhile_append)
    show ?thesis using split_on_no_sep [OF False] tw by simp
  qed
qed

lemma getNameFromPath_finalSegment: "getNameFromPath p = finalSegment p"
proof -
  let ?parts = "split_on slash p"
  have "?parts ! (length ?parts - 1) = last ?parts"
    by (simp add: last_conv_nth)
  then show ?thesis
    by (simp add: getNameFromPath_def finalSegment_def Let_def last_split_on)
qed

lemma finalSegment_no_slash: "slash \<notin> set (finalSegment p)"
  unfolding finalSegment_def using set_takeWhileD by fastforce

lemma finalSegment_suffix:
  "p = finalSegment p \<or> (\<exists>pre. p = pre @ slash # finalSegment p)"
proof (cases "slash \<in> set p")
  case False
  then have "takeWhile (\<lambda>c. c \<noteq> slash) (rev p) = rev p" by (auto intro: takeWhile_eq_all_conv [THEN iffD2])
  then have "finalSegment p = p"
    unfolding finalSegment_def by (simp only: rev_rev_ident)
  then show ?thesis by (rule disjI1 [OF sym])
next
  case True
  let ?t = "takeWhile (\<lambda>c. c \<noteq> slash) (rev p)" and ?d = "dropWhile (\<lambda>c. c \<noteq> slash) (rev p)"
  have dne: "?d \<noteq> []" using True by (simp add: dropWhile_eq_Nil_conv)
  then have "\<not> hd ?d \<noteq> slash" by (rule hd_dropWhile)
  with dne obtain r where r: "?d = slash # r" by (cases ?d) auto
  have "rev p = ?t @ ?d" by simp
  then have "p = rev ?d @ rev ?t" by (metis rev_append rev_rev_ident)
  then have "p = rev r @ slash # finalSegment p" by (simp add: r finalSegment_def)
  then show ?thesis by blast
qed

lemma sublist_toString: "sublist (toString n) (a @ toString n @ b)"
  by (auto simp: sublist_def)

section \<open>What each handler posts\<close>

lemma posts_append [simp]: "posts (xs @ ys) = posts xs @ posts ys"
  by (induction xs rule: posts.induct) simp_all

lemma notices_append [simp]: "notices (xs @ ys) = notices xs @ notices ys"
  by (induction xs rule: notices.induct) simp_all

lemma shouldSend_fst: "fst (shouldSend s m) \<longleftrightarrow> enabled s \<and> (m \<or> autoMode s) \<and> trim (webhookUrl s) \<noteq> []"
  by (auto simp: shouldSend_def)

lemma shouldSend_snd:
  "snd (shouldSend s m) =
     (if enabled s \<and> (m \<or> autoMode s) \<and> trim (webhookUrl s) = [] \<and> showNotices s
      then [Notice (lit ''Simple Webhook: webhook URL not configured.'')] else [])"
  by (auto simp: shouldSend_def)

lemma sendWebhook_resolved: "snd (sendWebhook s env b) = Resolved"
  by (simp add: sendWebhook_def Let_def split: FetchOutcome.splits)

lemma sendWebhook_posts:
  "posts (fst (sendWebhook s env b)) =
     (if trim (webhookUrl s) = [] then [] else [(trim (webhookUrl s), b)])"
  by (simp add: sendWebhook_def Let_def split: FetchOutcome.splits)

lemma handleFileEvent_eq:
  "handleFileEvent s env ev file =
     snd (shouldSend s False) @
     (case file of
        AFolder p n \<Rightarrow> []
      | AFile f \<Rightarrow>
          if fst (shouldSend s False) then
            fst (sendWebhook s env
              (JObject
                [(''event'', JString (vaultEventName ev)),
                 (''vaultName'', JString (getName env)),
                 (''timestamp'', JString (toISOString env)),
                 (''path'', JString (path f)),
                 (''name'', JString (name f)),
                 (''extension'', jsonOfOption JString (extension f)),
                 (''size'', jsonOfOption JNumber (getFileSizeSafe env f))]))
          else [])"
  by (cases "shouldSend s False"; cases "file") (auto simp: handleFileEvent_def split: bool.splits)

lemma handleRenameEvent_eq:
  "handleRenameEvent s env file oldPath =
     snd (shouldSend s False) @
     (case file of
        AFolder p n \<Rightarrow> []
      | AFile f \<Rightarrow>
          if fst (shouldSend s False) then
            fst (sendWebhook s env
              (JObject
                [(''event'', JString (lit ''rename'')),
                 (''vaultName'', JString (getName env)),
                 (''timestamp'', JString (toISOString env)),
                 (''oldPath'', JString oldPath),
                 (''newPath'', JString (path f)),
                 (''oldName'', JString (getNameFromPath oldPath)),
                 (''newName'', JString (name f))]))
          else [])"
  by (cases "shouldSend s False"; cases "file") (auto simp: handleRenameEvent_def split: bool.splits)

lemma triggerManualWebhook_eq:
  "triggerManualWebhook s env =
     (case getActiveFile env of
        None \<Rightarrow> [Notice (lit ''Simple Webhook: no active note.'')]
      | Some f \<Rightarrow>
          snd (shouldSend s True) @
          (if fst (shouldSend s True) then
             fst (sendWebhook s env
               (JObject
                 [(''event'', JString (lit ''modify'')),
                  (''vaultName'', JString (getName env)),
                  (''timestamp'', JString (toISOString env)),
                  (''path'', JString (path f)),
                  (''name'', JString (name f)),
                  (''extension'', jsonOfOption JString (extension f)),
                  (''size'', jsonOfOption JNumber (getFileSizeSafe env f))])) @
             [Notice (lit ''Simple Webhook: webhook sent for the active note.'')]
           else []))"
proof (cases "getActiveFile env")
  case None
  then show ?thesis by (simp add: triggerManualWebhook_def)
next
  case (Some f)
  let ?b = "JObject
                 [(''event'', JString (lit ''modify'')),
                  (''vaultName'', JString (getName env)),
                  (''timestamp'', JString (toISOString env)),
                  (''path'', JString (path f)),
                  (''name'', JString (name f)),
                  (''extension'', jsonOfOption JString (extension f)),
                  (''size'', jsonOfOption JNumber (getFileSizeSafe env f))]"
  obtain ws where ws: "sendWebhook s env ?b = (ws, Resolved)"
    using sendWebhook_resolved [of s env ?b] by (cases "sendWebhook s env ?b") auto
  show ?thesis
    by (cases "shouldSend s True") (auto simp: triggerManualWebhook_def Some ws)
qed

lemma posts_handleFileEvent:
  "posts (handleFileEvent s env ev file) =
     (case file of
        AFolder p n \<Rightarrow> []
      | AFile f \<Rightarrow>
          if enabled s \<and> autoMode s \<and> trim (webhookUrl s) \<noteq> [] then
            [(trim (webhookUrl s),
              JObject
                [(''event'', JString (vaultEventName ev)),
                 (''vaultName'', JString (getName env)),
                 (''timestamp'', JString (toISOString env)),
                 (''path'', JString (path f)),
                 (''name'', JString (name f)),
                 (''extension'', jsonOfOption JString (extension f)),
                 (''size'', jsonOfOption JNumber (getFileSizeSafe env f))])]
          else [])"
  by (simp add: handleFileEvent_eq shouldSend_fst shouldSend_snd sendWebhook_posts
           split: TAbstractFile.splits)

lemma posts_handleRenameEvent:
  "posts (handleRenameEvent s env file oldPath) =
     (case file of
        AFolder p n \<Rightarrow> []
      | AFile f \<Rightarrow>
          if enabled s \<and> autoMode s \<and> trim (webhookUrl s) \<noteq> [] then
            [(trim (webhookUrl s),
              JObject
                [(''event'', JString (lit ''rename'')),
                 (''vaultName'', JString (getName env)),
                 (''timestamp'', JString (toISOString env)),
                 (''oldPath'', JString oldPath),
                 (''newPath'', JString (path f)),
                 (''oldName'', JString (getNameFromPath oldPath)),
                 (''newName'', JString (name f))])]
          else [])"
  by (simp add: handleRenameEvent_eq shouldSend_fst shouldSend_snd sendWebhook_posts
           split: TAbstractFile.splits)

lemma posts_handleWorkspaceFileTrigger:
  "posts (handleWorkspaceFileTrigger s env label f) =
     (if enabled s \<and> trim (webhookUrl s) \<noteq> [] then
        [(trim (webhookUrl s),
          JObject
            [(''event'', JString (hookEventName label)),
             (''vaultName'', JString (getName env)),
             (''timestamp'', JString (toISOString env)),
             (''path'', JString (path f)),
             (''name'', JString (name f)),
             (''extension'', jsonOfOption JString (extension f)),
             (''size'', jsonOfOption JNumber (getFileSizeSafe env f))])]
      else [])"
  by (auto simp: handleWorkspaceFileTrigger_def sendWebhook_posts)

lemma posts_triggerManualWebhook:
  "posts (triggerManualWebhook s env) =
     (case getActiveFile env of
        None \<Rightarrow> []
      | Some f \<Rightarrow>
          if enabled s \<and> trim (webhookUrl s) \<noteq> [] then
            [(trim (webhookUrl s),
              JObject
                [(''event'', JString (lit ''modify'')),
                 (''vaultName'', JString (getName env)),
                 (''timestamp'', JString (toISOString env)),
                 (''path'', JString (path f)),
                 (''name'', JString (name f)),
                 (''extension'', jsonOfOption JString (extension f)),
                 (''size'', jsonOfOption JNumber (getFileSizeSafe env f))])]
          else [])"
  by (simp add: triggerManualWebhook_eq shouldSend_fst shouldSend_snd sendWebhook_posts
           split: option.splits)

lemma posts_sendTestClick:
  "posts (sendTestClick s env) =
     (if trim (webhookUrl s) = [] then []
      else [(trim (webhookUrl s),
             JObject
               [(''_event'', JString (lit ''test'')),
                (''message'', JString (lit ''Simple Webhook test payload'')),
                (''vaultName'', JString (getName env)),
                (''timestamp'', JString (toISOString env))])])"
  by (simp add: sendTestClick_def Let_def split: FetchOutcome.splits)

lemma posts_commandToggle: "posts (snd (commandToggle s)) = []"
  by (simp add: commandToggle_def Let_def)


lemma trim_hookUrl: "trim hookUrl = hookUrl"
  by (simp add: hookUrl_def lit_def trim_def isWhiteSpace_def)

lemma hookUrl_not_Nil: "hookUrl \<noteq> []"
  by (simp add: hookUrl_def lit_def)

lemma vaultEventName_inject: "vaultEventName k = vaultEventName k' \<longleftrightarrow> k = k'"
  by (cases k; cases k') (simp_all add: lit_def)

lemma default_unconfigured: "\<not> fst (shouldSend DEFAULT_SETTINGS manual)"
  by (simp add: shouldSend_def DEFAULT_SETTINGS_def)

lemma posts_effects:
  "posts (effects s env op) =
     (case op of
        OnModify file \<Rightarrow> posts (handleFileEvent s env Modify file)
      | OnCreate file \<Rightarrow> posts (handleFileEvent s env Create file)
      | OnDelete file \<Rightarrow> posts (handleFileEvent s env Delete file)
      | OnRename file oldPath \<Rightarrow> posts (handleRenameEvent s env file oldPath)
      | OnFileOpen file \<Rightarrow>
          (case file of None \<Rightarrow> []
           | Some f \<Rightarrow> if sendOnFileOpen s then posts (handleWorkspaceFileTrigger s env File_open f) else [])
      | OnActiveLeafChange file \<Rightarrow>
          (case file of None \<Rightarrow> []
           | Some f \<Rightarrow> if sendOnLeafChange s then posts (handleWorkspaceFileTrigger s env Leaf_change f) else [])
      | CommandSendNow \<Rightarrow> if enabled s \<and> \<not> autoMode s then posts (triggerManualWebhook s env) else []
      | RibbonClick \<Rightarrow> posts (triggerManualWebhook s env)
      | CommandToggle \<Rightarrow> []
      | SendTestClick \<Rightarrow> posts (sendTestClick s env))"
  by (cases op)
     (simp_all add: effects_def onFileOpen_def onActiveLeafChange_def commandSendNow_def
        canUseManualControls_def posts_commandToggle split: option.splits)

lemmas posts_handlers =
  posts_handleFileEvent posts_handleRenameEvent posts_handleWorkspaceFileTrigger
  posts_triggerManualWebhook posts_sendTestClick

lemma posts_effects_url:
  "(u, b) \<in> set (posts (effects s env op)) \<Longrightarrow> u = trim (webhookUrl s) \<and> trim (webhookUrl s) \<noteq> []"
  by (cases op)
     (auto simp: posts_effects posts_handlers split: TAbstractFile.splits option.splits if_splits)

section \<open>Properties\<close>

text \<open>
  C1. For each of the four automatic vault event kinds on a file, with the master flag
  and automatic sending on and a URL that is non-empty after trimming, exactly one POST
  is issued, to the trimmed URL, and the \<open>event\<close> field of its body is the kind that
  triggered it. In the scenario of the specification (URL \<open>https://x.test/hook\<close>, file
  \<open>a/b.md\<close> of size 10 modified) the body is the one written out below.
\<close>

theorem C1_vault_event_posts_once:
  "(\<forall>s env kind f oldPath.
      enabled s \<and> autoMode s \<and> trim (webhookUrl s) \<noteq> [] \<longrightarrow>
      (\<exists>b. posts (effects s env (vaultEvent kind (AFile f) oldPath)) = [(trim (webhookUrl s), b)] \<and>
           field b ''event'' = Some (JString (vaultEventName kind))))
   \<and> (\<forall>env. stat env (lit ''a/b.md'') = StatResolves (Some (Stat (Some 10))) \<longrightarrow>
        posts (effects scenarioSettings env (OnModify (AFile noteAB))) =
          [(lit ''https://x.test/hook'',
            JObject
              [(''event'', JString (lit ''modify'')),
               (''vaultName'', JString (getName env)),
               (''timestamp'', JString (toISOString env)),
               (''path'', JString (lit ''a/b.md'')),
               (''name'', JString (lit ''b.md'')),
               (''extension'', JString (lit ''md'')),
               (''size'', JNumber 10)])])"
proof (intro conjI allI impI)
  fix s :: Settings and env :: Env and kind :: VaultEventType and f :: TFile
    and oldPath :: jsstring
  assume "enabled s \<and> autoMode s \<and> trim (webhookUrl s) \<noteq> []"
  then show "\<exists>b. posts (effects s env (vaultEvent kind (AFile f) oldPath)) = [(trim (webhookUrl s), b)] \<and>
           field b ''event'' = Some (JString (vaultEventName kind))"
    by (cases kind) (simp_all add: posts_effects posts_handlers)
next
  fix env :: Env
  assume "stat env (lit ''a/b.md'') = StatResolves (Some (Stat (Some 10)))"
  then have "getFileSizeSafe env noteAB = Some 10"
    by (simp add: getFileSizeSafe_def noteAB_def)
  then show "posts (effects scenarioSettings env (OnModify (AFile noteAB))) =
          [(lit ''https://x.test/hook'',
            JObject
              [(''event'', JString (lit ''modify'')),
               (''vaultName'', JString (getName env)),
               (''timestamp'', JString (toISOString env)),
               (''path'', JString (lit ''a/b.md'')),
               (''name'', JString (lit ''b.md'')),
               (''extension'', JString (lit ''md'')),
               (''size'', JNumber 10)])]"
    using trim_hookUrl hookUrl_not_Nil
    by (simp add: posts_effects posts_handlers scenarioSettings_def jsonOfOption_def)
       (simp add: noteAB_def hookUrl_def)
qed

text \<open>
  The hypotheses of C1 hold in the scenario: a rename and a modify there post once each.
\<close>

theorem C1_witness:
  "enabled scenarioSettings \<and> autoMode scenarioSettings \<and> trim (webhookUrl scenarioSettings) \<noteq> [] \<and>
   stat scenarioEnv (lit ''a/b.md'') = StatResolves (Some (Stat (Some 10))) \<and>
   (\<exists>b. posts (effects scenarioSettings scenarioEnv (OnRename (AFile noteNew) (lit ''old.md''))) =
          [(hookUrl, b)] \<and>
        field b ''event'' = Some (JString (lit ''rename''))) \<and>
   map (\<lambda>ub. field (snd ub) ''size'') (posts (effects scenarioSettings scenarioEnv (OnModify (AFile noteAB)))) =
     [Some (JNumber 10)]"
proof -
  have h: "enabled scenarioSettings \<and> autoMode scenarioSettings \<and> trim (webhookUrl scenarioSettings) \<noteq> []"
    using trim_hookUrl hookUrl_not_Nil by (simp add: scenarioSettings_def)
  have st: "stat scenarioEnv (lit ''a/b.md'') = StatResolves (Some (Stat (Some 10)))"
    by (simp add: scenarioEnv_def)
  from C1_vault_event_posts_once have
    1: "\<exists>b. posts (effects scenarioSettings scenarioEnv (vaultEvent Rename (AFile noteNew) (lit ''old.md''))) =
          [(trim (webhookUrl scenarioSettings), b)] \<and>
        field b ''event'' = Some (JString (vaultEventName Rename))"
    using h by blast
  from C1_vault_event_posts_once st have
    2: "posts (effects scenarioSettings scenarioEnv (OnModify (AFile noteAB))) =
          [(lit ''https://x.test/hook'',
            JObject
              [(''event'', JString (lit ''modify'')),
               (''vaultName'', JString (getName scenarioEnv)),
               (''timestamp'', JString (toISOString scenarioEnv)),
               (''path'', JString (lit ''a/b.md'')),
               (''name'', JString (lit ''b.md'')),
               (''extension'', JString (lit ''md'')),
               (''size'', JNumber 10)])]"
    by blast
  have u: "trim (webhookUrl scenarioSettings) = hookUrl"
    using trim_hookUrl by (simp add: scenarioSettings_def)
  show ?thesis using h st 1 2 by (simp add: u)
qed

text \<open>
  The master flag does not stop the settings panel's "Send test" button: with the flag
  off and a URL configured, the button posts its test payload.
\<close>

theorem C2_counterexample:
  "\<not> enabled disabledSettings \<and>
   posts (effects disabledSettings scenarioEnv SendTestClick) =
     [(hookUrl,
       JObject
         [(''_event'', JString (lit ''test'')),
          (''message'', JString (lit ''Simple Webhook test payload'')),
          (''vaultName'', JString (lit ''My Vault'')),
          (''timestamp'', JString (lit ''2025-11-20T15:17:00.000Z''))])]"
  using trim_hookUrl hookUrl_not_Nil
  by (simp add: posts_effects posts_sendTestClick disabledSettings_def scenarioSettings_def
        scenarioEnv_def)

text \<open>
  C2, amended. With the master flag off, no operation other than the "Send test" button
  issues a POST, whatever the other flags are: not the vault event handlers, the
  workspace focus handlers, the manual command, the ribbon action or the toggle command.
  The "Send test" button does not read the master flag: it posts exactly once whenever
  the URL is non-empty after trimming.
\<close>

theorem C2_disabled_posts_nothing:
  "(\<not> enabled s \<and> op \<noteq> SendTestClick \<longrightarrow> posts (effects s env op) = []) \<and>
   (trim (webhookUrl s) \<noteq> [] \<longrightarrow> length (posts (effects s env SendTestClick)) = 1)"
  by (cases op)
     (simp_all add: posts_effects posts_handlers split: TAbstractFile.splits option.splits)

text \<open>
  With the master flag off and a URL configured, a modify event posts nothing and the
  "Send test" button posts once.
\<close>

theorem C2_witness:
  "\<not> enabled disabledSettings \<and> OnModify (AFile noteAB) \<noteq> SendTestClick \<and>
   trim (webhookUrl disabledSettings) \<noteq> [] \<and>
   posts (effects disabledSettings scenarioEnv (OnModify (AFile noteAB))) = [] \<and>
   length (posts (effects disabledSettings scenarioEnv SendTestClick)) = 1"
  using C2_disabled_posts_nothing [of disabledSettings "OnModify (AFile noteAB)" scenarioEnv]
    trim_hookUrl hookUrl_not_Nil
  by (simp add: disabledSettings_def scenarioSettings_def)

lemma effects_triggered_empty_url:
  "trim (webhookUrl s) = [] \<Longrightarrow> triggered s env op \<Longrightarrow>
   effects s env op =
     (if op = SendTestClick then [Notice (lit ''Simple Webhook: configure the webhook URL first.'')]
      else if showNotices s then [Notice (lit ''Simple Webhook: webhook URL not configured.'')]
      else [])"
  by (cases op)
     (auto simp: effects_def handleFileEvent_eq handleRenameEvent_eq triggerManualWebhook_eq
        shouldSend_fst shouldSend_snd onFileOpen_def onActiveLeafChange_def
        handleWorkspaceFileTrigger_def commandSendNow_def canUseManualControls_def
        sendTestClick_def
        split: TAbstractFile.splits)

text \<open>
  C3. When the destination URL is empty (nothing is left of it after trimming; the empty
  string is the first case of that), no operation issues a POST. If moreover the operation
  is a triggered send, it performs nothing but notices (so it stops before any network
  call); with the notices flag on it shows exactly one notice, and that notice reports the
  missing configuration; with the notices flag off it does nothing at all, except the
  "Send test" button, whose notice does not depend on the flag.
\<close>

theorem C3_empty_url_aborts:
  "trim (webhookUrl s) = [] \<longrightarrow>
     posts (effects s env op) = [] \<and>
     (triggered s env op \<longrightarrow>
        effects s env op = map Notice (notices (effects s env op)) \<and>
        (showNotices s \<longrightarrow>
           (\<exists>t. notices (effects s env op) = [t] \<and> configurationMissing t)) \<and>
        (\<not> showNotices s \<and> op \<noteq> SendTestClick \<longrightarrow> effects s env op = []))"
proof (intro impI conjI)
  assume e: "trim (webhookUrl s) = []"
  show "posts (effects s env op) = []"
    using e
    by (cases op)
       (simp_all add: posts_effects posts_handlers split: TAbstractFile.splits option.splits)
  assume t: "triggered s env op"
  note eq = effects_triggered_empty_url [OF e t]
  show "effects s env op = map Notice (notices (effects s env op))"
    by (simp add: eq)
  show "\<exists>t. notices (effects s env op) = [t] \<and> configurationMissing t" if "showNotices s"
    using that by (simp add: eq configurationMissing_def)
  show "effects s env op = []" if "\<not> showNotices s \<and> op \<noteq> SendTestClick"
    using that by (simp add: eq)
qed

text \<open>
  With no URL and notices on, a modify event shows the one notice; with notices off, the
  ribbon action does nothing.
\<close>

theorem C3_witness:
  "trim (webhookUrl unconfiguredSettings) = [] \<and>
   triggered unconfiguredSettings scenarioEnv (OnModify (AFile noteAB)) \<and>
   showNotices unconfiguredSettings \<and>
   effects unconfiguredSettings scenarioEnv (OnModify (AFile noteAB)) =
     [Notice (lit ''Simple Webhook: webhook URL not configured.'')] \<and>
   trim (webhookUrl (unconfiguredSettings\<lparr>showNotices := False\<rparr>)) = [] \<and>
   triggered (unconfiguredSettings\<lparr>showNotices := False\<rparr>) scenarioEnv RibbonClick \<and>
   effects (unconfiguredSettings\<lparr>showNotices := False\<rparr>) scenarioEnv RibbonClick = []"
proof -
  let ?s = unconfiguredSettings and ?q = "unconfiguredSettings\<lparr>showNotices := False\<rparr>"
  let ?op = "OnModify (AFile noteAB)"
  have h: "trim (webhookUrl ?s) = []" "triggered ?s scenarioEnv ?op" "showNotices ?s"
    by (simp_all add: unconfiguredSettings_def noisySettings_def scenarioSettings_def)
  have k: "trim (webhookUrl ?q) = []" "triggered ?q scenarioEnv RibbonClick"
    "\<not> showNotices ?q \<and> RibbonClick \<noteq> SendTestClick"
    by (simp_all add: unconfiguredSettings_def noisySettings_def scenarioSettings_def
          scenarioEnv_def)
  from C3_empty_url_aborts [of ?s scenarioEnv ?op] h
  obtain t where t: "effects ?s scenarioEnv ?op = map Notice [t]"
    by (metis (no_types, lifting))
  have "notices (effects ?s scenarioEnv ?op) = [lit ''Simple Webhook: webhook URL not configured.'']"
    by (simp add: effects_def handleFileEvent_eq shouldSend_fst shouldSend_snd h
          unconfiguredSettings_def noisySettings_def scenarioSettings_def)
  with t have 1: "effects ?s scenarioEnv ?op = [Notice (lit ''Simple Webhook: webhook URL not configured.'')]"
    by simp
  from C3_empty_url_aborts [of ?q scenarioEnv RibbonClick] k
  have 2: "effects ?q scenarioEnv RibbonClick = []" by blast
  show ?thesis using h k 1 2 by simp
qed

lemma finalSegment_old: "finalSegment (lit ''old.md'') = lit ''old.md''"
  by (simp add: finalSegment_def lit_def slash_def)

text \<open>
  C4. Every payload a rename event posts carries the old path the host passed, the
  renamed file's path, the final \<open>/\<close>-separated segment of the old path as old name and
  the renamed file's name as new name. In the scenario of the specification, renaming
  \<open>old.md\<close> to \<open>folder/new.md\<close> gives old path \<open>old.md\<close>, new path \<open>folder/new.md\<close>,
  old name \<open>old.md\<close> and new name \<open>new.md\<close>.
\<close>

theorem C4_rename_payload:
  "(\<forall>s env file oldPath u b.
      (u, b) \<in> set (posts (effects s env (OnRename file oldPath))) \<longrightarrow>
      (\<exists>f. file = AFile f \<and>
           field b ''event'' = Some (JString (lit ''rename'')) \<and>
           field b ''oldPath'' = Some (JString oldPath) \<and>
           field b ''newPath'' = Some (JString (path f)) \<and>
           field b ''oldName'' = Some (JString (finalSegment oldPath)) \<and>
           field b ''newName'' = Some (JString (name f))))
   \<and> (\<forall>env. \<exists>b.
        posts (effects scenarioSettings env (OnRename (AFile noteNew) (lit ''old.md''))) =
          [(hookUrl, b)] \<and>
        field b ''oldPath'' = Some (JString (lit ''old.md'')) \<and>
        field b ''newPath'' = Some (JString (lit ''folder/new.md'')) \<and>
        field b ''oldName'' = Some (JString (lit ''old.md'')) \<and>
        field b ''newName'' = Some (JString (lit ''new.md'')))"
proof (intro conjI allI impI)
  fix s :: Settings and env :: Env and item :: TAbstractFile and oldPath u :: jsstring
    and b :: Json
  assume "(u, b) \<in> set (posts (effects s env (OnRename item oldPath)))"
  then show "\<exists>f. item = AFile f \<and>
           field b ''event'' = Some (JString (lit ''rename'')) \<and>
           field b ''oldPath'' = Some (JString oldPath) \<and>
           field b ''newPath'' = Some (JString (path f)) \<and>
           field b ''oldName'' = Some (JString (finalSegment oldPath)) \<and>
           field b ''newName'' = Some (JString (name f))"
    by (cases item)
       (auto simp: posts_effects posts_handleRenameEvent getNameFromPath_finalSegment
          split: if_splits)
next
  fix env :: Env
  show "\<exists>b.
        posts (effects scenarioSettings env (OnRename (AFile noteNew) (lit ''old.md''))) =
          [(hookUrl, b)] \<and>
        field b ''oldPath'' = Some (JString (lit ''old.md'')) \<and>
        field b ''newPath'' = Some (JString (lit ''folder/new.md'')) \<and>
        field b ''oldName'' = Some (JString (lit ''old.md'')) \<and>
        field b ''newName'' = Some (JString (lit ''new.md''))"
    using trim_hookUrl hookUrl_not_Nil finalSegment_old
    by (simp add: posts_effects posts_handleRenameEvent getNameFromPath_finalSegment
          scenarioSettings_def noteNew_def)
qed

text \<open>
  A rename of \<open>a/b/old.md\<close> to \<open>folder/new.md\<close> does post, and its payload names
  \<open>old.md\<close> and \<open>new.md\<close>.
\<close>

theorem C4_witness:
  "\<exists>b. (hookUrl, b) \<in>
          set (posts (effects scenarioSettings scenarioEnv (OnRename (AFile noteNew) (lit ''a/b/old.md'')))) \<and>
       field b ''oldPath'' = Some (JString (lit ''a/b/old.md'')) \<and>
       field b ''oldName'' = Some (JString (lit ''old.md'')) \<and>
       field b ''newPath'' = Some (JString (lit ''folder/new.md'')) \<and>
       field b ''newName'' = Some (JString (lit ''new.md''))"
proof -
  let ?op = "OnRename (AFile noteNew) (lit ''a/b/old.md'')"
  have "posts (effects scenarioSettings scenarioEnv ?op) \<noteq> []"
    using trim_hookUrl hookUrl_not_Nil
    by (simp add: posts_effects posts_handleRenameEvent scenarioSettings_def)
  then obtain u b where m: "(u, b) \<in> set (posts (effects scenarioSettings scenarioEnv ?op))"
    by (cases "posts (effects scenarioSettings scenarioEnv ?op)") auto
  then have u: "u = hookUrl"
    using posts_effects_url [OF m] trim_hookUrl by (simp add: scenarioSettings_def)
  have fs: "finalSegment (lit ''a/b/old.md'') = lit ''old.md''"
    by (simp add: finalSegment_def lit_def slash_def)
  from C4_rename_payload m obtain f where
    "AFile noteNew = AFile f"
    "field b ''oldPath'' = Some (JString (lit ''a/b/old.md''))"
    "field b ''newPath'' = Some (JString (path f))"
    "field b ''oldName'' = Some (JString (finalSegment (lit ''a/b/old.md'')))"
    "field b ''newName'' = Some (JString (name f))"
    by blast
  then show ?thesis using m u fs by (auto simp: noteNew_def)
qed

lemma posts_effects_has_event:
  "op \<noteq> SendTestClick \<Longrightarrow> (u, b) \<in> set (posts (effects s env op)) \<Longrightarrow>
   field b ''_event'' = None \<and> field b ''event'' \<noteq> None"
  by (cases op)
     (auto simp: posts_effects posts_handlers split: TAbstractFile.splits option.splits if_splits)

text \<open>
  C5. Whenever the configured URL is non-empty (after trimming, which is how the button
  tests it), the "Send test" button issues exactly one POST, to the trimmed URL; its body
  has the marker field \<open>_event\<close> with value \<open>test\<close> and no \<open>event\<close> field, whereas every
  body posted by any other operation has an \<open>event\<close> field and no \<open>_event\<close> field. What
  the button does is the same for every value of the master flag and of the
  automatic-sending flag. For a URL stored by the settings panel's URL field, which trims
  it, being non-empty as stored is enough.
\<close>

theorem C5_send_test:
  "(trim (webhookUrl s) \<noteq> [] \<longrightarrow>
      (\<exists>b. posts (effects s env SendTestClick) = [(trim (webhookUrl s), b)] \<and>
           field b ''_event'' = Some (JString (lit ''test'')) \<and>
           field b ''event'' = None))
   \<and> effects (s\<lparr>enabled := e, autoMode := a\<rparr>) env SendTestClick = effects s env SendTestClick
   \<and> (\<forall>s' env' op u b'.
        op \<noteq> SendTestClick \<and> (u, b') \<in> set (posts (effects s' env' op)) \<longrightarrow>
        field b' ''_event'' = None \<and> field b' ''event'' \<noteq> None)
   \<and> (webhookUrl (fst (onChangeWebhookUrl s v)) \<noteq> [] \<longrightarrow>
        length (posts (effects (fst (onChangeWebhookUrl s v)) env SendTestClick)) = 1)"
proof (intro conjI allI impI)
  assume "trim (webhookUrl s) \<noteq> []"
  then show "\<exists>b. posts (effects s env SendTestClick) = [(trim (webhookUrl s), b)] \<and>
           field b ''_event'' = Some (JString (lit ''test'')) \<and>
           field b ''event'' = None"
    by (simp add: posts_effects posts_sendTestClick)
next
  show "effects (s\<lparr>enabled := e, autoMode := a\<rparr>) env SendTestClick = effects s env SendTestClick"
    by (simp add: effects_def sendTestClick_def)
next
  fix s' :: Settings and env' :: Env and op :: Operation and u :: jsstring and b' :: Json
  assume h: "op \<noteq> SendTestClick \<and> (u, b') \<in> set (posts (effects s' env' op))"
  then show "field b' ''_event'' = None" "field b' ''event'' \<noteq> None"
    using posts_effects_has_event [of op u b' s' env'] by blast+
next
  assume "webhookUrl (fst (onChangeWebhookUrl s v)) \<noteq> []"
  then have "trim (webhookUrl (fst (onChangeWebhookUrl s v))) \<noteq> []"
    by (simp add: onChangeWebhookUrl_def Let_def trim_idem)
  then show "length (posts (effects (fst (onChangeWebhookUrl s v)) env SendTestClick)) = 1"
    by (simp add: posts_effects posts_sendTestClick)
qed

text \<open>
  With the master flag off the button still posts once, with the marker; a modify
  payload has no marker.
\<close>

theorem C5_witness:
  "trim (webhookUrl disabledSettings) \<noteq> [] \<and> \<not> enabled disabledSettings \<and>
   map (\<lambda>ub. (fst ub, field (snd ub) ''_event'')) (posts (effects disabledSettings scenarioEnv SendTestClick)) =
     [(hookUrl, Some (JString (lit ''test'')))] \<and>
   OnModify (AFile noteAB) \<noteq> SendTestClick \<and>
   map (\<lambda>ub. field (snd ub) ''_event'') (posts (effects scenarioSettings scenarioEnv (OnModify (AFile noteAB)))) =
     [None]"
proof -
  have h: "trim (webhookUrl disabledSettings) \<noteq> []" "trim (webhookUrl disabledSettings) = hookUrl"
    "\<not> enabled disabledSettings"
    using trim_hookUrl hookUrl_not_Nil
    by (simp_all add: disabledSettings_def scenarioSettings_def)
  from C5_send_test [of disabledSettings scenarioEnv, THEN conjunct1] h
  obtain b where b: "posts (effects disabledSettings scenarioEnv SendTestClick) = [(hookUrl, b)]"
    "field b ''_event'' = Some (JString (lit ''test''))"
    by auto
  let ?op = "OnModify (AFile noteAB)"
  have "\<exists>b'. posts (effects scenarioSettings scenarioEnv ?op) = [(hookUrl, b')]"
    using trim_hookUrl hookUrl_not_Nil
    by (simp add: posts_effects posts_handleFileEvent scenarioSettings_def)
  then obtain b' where b': "posts (effects scenarioSettings scenarioEnv ?op) = [(hookUrl, b')]"
    by blast
  then have "(hookUrl, b') \<in> set (posts (effects scenarioSettings scenarioEnv ?op))" by simp
  with C5_send_test [of disabledSettings scenarioEnv] have "field b' ''_event'' = None"
    by blast
  then show ?thesis using h b b' by simp
qed

lemma getFileSizeSafe_noSize: "noSize (stat env (path f)) \<Longrightarrow> getFileSizeSafe env f = None"
  by (cases "stat env (path f)" rule: noSize.cases) (simp_all add: getFileSizeSafe_def)

text \<open>
  C6. For every operation that builds a file payload (the three vault file events, the
  two workspace triggers, the manual command and the ribbon action), once it is a
  triggered send with a non-empty URL: if the size lookup throws, resolves to null or
  resolves without a size, the lookup yields no size, and the payload is still posted,
  exactly once, with all seven fields and \<open>size\<close> null.
\<close>

theorem C6_size_absent:
  "noSize (stat env (path f)) \<and> sizedFile env op = Some f \<and> triggered s env op \<and>
   trim (webhookUrl s) \<noteq> [] \<longrightarrow>
     getFileSizeSafe env f = None \<and>
     (\<exists>b. posts (effects s env op) = [(trim (webhookUrl s), b)] \<and>
          keys b = filePayloadKeys \<and>
          field b ''path'' = Some (JString (path f)) \<and>
          field b ''size'' = Some JNull)"
proof (intro impI conjI)
  assume h: "noSize (stat env (path f)) \<and> sizedFile env op = Some f \<and> triggered s env op \<and>
   trim (webhookUrl s) \<noteq> []"
  then show z: "getFileSizeSafe env f = None" by (simp add: getFileSizeSafe_noSize)
  have sf: "sizedFile env op = Some f" and t: "triggered s env op"
    and u: "trim (webhookUrl s) \<noteq> []" using h by simp_all
  show "\<exists>b. posts (effects s env op) = [(trim (webhookUrl s), b)] \<and>
          keys b = filePayloadKeys \<and>
          field b ''path'' = Some (JString (path f)) \<and>
          field b ''size'' = Some JNull"
  proof (cases op)
    case (OnModify x)
    then show ?thesis using sf t u z
      by (cases x) (simp_all add: posts_effects posts_handlers filePayloadKeys_def jsonOfOption_def)
  next
    case (OnCreate x)
    then show ?thesis using sf t u z
      by (cases x) (simp_all add: posts_effects posts_handlers filePayloadKeys_def jsonOfOption_def)
  next
    case (OnDelete x)
    then show ?thesis using sf t u z
      by (cases x) (simp_all add: posts_effects posts_handlers filePayloadKeys_def jsonOfOption_def)
  next
    case (OnFileOpen x)
    then show ?thesis using sf t u z
      by (simp add: posts_effects posts_handlers filePayloadKeys_def jsonOfOption_def)
  next
    case (OnActiveLeafChange x)
    then show ?thesis using sf t u z
      by (simp add: posts_effects posts_handlers filePayloadKeys_def jsonOfOption_def)
  next
    case CommandSendNow
    then show ?thesis using sf t u z
      by (simp add: posts_effects posts_handlers filePayloadKeys_def jsonOfOption_def
            canUseManualControls_def)
  next
    case RibbonClick
    then show ?thesis using sf t u z
      by (simp add: posts_effects posts_handlers filePayloadKeys_def jsonOfOption_def)
  qed (use sf in simp_all)
qed

text \<open>
  A delete event whose size lookup throws still posts the payload, with \<open>size\<close> null.
\<close>

theorem C6_witness:
  "noSize (stat racingEnv (path noteAB)) \<and>
   sizedFile racingEnv (OnDelete (AFile noteAB)) = Some noteAB \<and>
   triggered scenarioSettings racingEnv (OnDelete (AFile noteAB)) \<and>
   trim (webhookUrl scenarioSettings) \<noteq> [] \<and>
   map (\<lambda>ub. (fst ub, field (snd ub) ''path'', field (snd ub) ''size''))
     (posts (effects scenarioSettings racingEnv (OnDelete (AFile noteAB)))) =
     [(hookUrl, Some (JString (lit ''a/b.md'')), Some JNull)]"
proof -
  let ?op = "OnDelete (AFile noteAB)"
  have h: "noSize (stat racingEnv (path noteAB))" "sizedFile racingEnv ?op = Some noteAB"
    "triggered scenarioSettings racingEnv ?op" "trim (webhookUrl scenarioSettings) \<noteq> []"
    using trim_hookUrl hookUrl_not_Nil
    by (simp_all add: racingEnv_def scenarioSettings_def)
  have u: "trim (webhookUrl scenarioSettings) = hookUrl"
    using trim_hookUrl by (simp add: scenarioSettings_def)
  from C6_size_absent [of racingEnv noteAB ?op scenarioSettings] h
  obtain b where "posts (effects scenarioSettings racingEnv ?op) = [(hookUrl, b)]"
    "field b ''path'' = Some (JString (path noteAB))" "field b ''size'' = Some JNull"
    unfolding u by blast
  then show ?thesis using h by (simp add: noteAB_def)
qed

text \<open>
  With the notices flag off, a transport failure is swallowed without a trace: the error
  is not logged.
\<close>

theorem C7_counterexample:
  "\<not> showNotices scenarioSettings \<and>
   fetch offlineEnv hookUrl
     (JObject
        [(''event'', JString (lit ''modify'')),
         (''vaultName'', JString (lit ''My Vault'')),
         (''timestamp'', JString (lit ''2025-11-20T15:17:00.000Z'')),
         (''path'', JString (lit ''a/b.md'')),
         (''name'', JString (lit ''b.md'')),
         (''extension'', JString (lit ''md'')),
         (''size'', JNumber 10)]) = FetchRejects networkDown \<and>
   effects scenarioSettings offlineEnv (OnModify (AFile noteAB)) =
     [Post hookUrl
       (JObject
        [(''event'', JString (lit ''modify'')),
         (''vaultName'', JString (lit ''My Vault'')),
         (''timestamp'', JString (lit ''2025-11-20T15:17:00.000Z'')),
         (''path'', JString (lit ''a/b.md'')),
         (''name'', JString (lit ''b.md'')),
         (''extension'', JString (lit ''md'')),
         (''size'', JNumber 10)])] \<and>
   logged (effects scenarioSettings offlineEnv (OnModify (AFile noteAB))) = []"
proof -
  have s: "enabled scenarioSettings" "autoMode scenarioSettings"
    "\<not> showNotices scenarioSettings" "trim (webhookUrl scenarioSettings) = hookUrl"
    using trim_hookUrl by (simp_all add: scenarioSettings_def)
  have e: "getName offlineEnv = lit ''My Vault''"
    "toISOString offlineEnv = lit ''2025-11-20T15:17:00.000Z''"
    "getFileSizeSafe offlineEnv noteAB = Some 10"
    "fetch offlineEnv = (\<lambda>u b. FetchRejects networkDown)"
    by (simp_all add: offlineEnv_def scenarioEnv_def getFileSizeSafe_def)
  have n: "path noteAB = lit ''a/b.md''" "name noteAB = lit ''b.md''"
    "extension noteAB = Some (lit ''md'')"
    by (simp_all add: noteAB_def)
  have "effects scenarioSettings offlineEnv (OnModify (AFile noteAB)) =
     [Post hookUrl
       (JObject
        [(''event'', JString (lit ''modify'')),
         (''vaultName'', JString (lit ''My Vault'')),
         (''timestamp'', JString (lit ''2025-11-20T15:17:00.000Z'')),
         (''path'', JString (lit ''a/b.md'')),
         (''name'', JString (lit ''b.md'')),
         (''extension'', JString (lit ''md'')),
         (''size'', JNumber 10)])]"
    using hookUrl_not_Nil
    by (simp add: effects_def handleFileEvent_eq shouldSend_fst shouldSend_snd sendWebhook_def
          s e n jsonOfOption_def)
  then show ?thesis by (simp add: s e)
qed

text \<open>
  C7, amended. For every delivery attempt of \<open>sendWebhook\<close>: on a non-success HTTP
  status, a notice containing the status code in decimal is shown exactly when the notices
  flag is on; on a transport exception the exception is caught (the delivery resolves),
  and the error is logged and a generic failure notice is shown exactly when the notices
  flag is on; in both cases there is exactly one POST, so no retry.
\<close>

theorem C7_delivery_failures:
  "trim (webhookUrl s) \<noteq> [] \<longrightarrow>
     (\<forall>r. fetch env (trim (webhookUrl s)) b = FetchResolves r \<and> \<not> ok r \<longrightarrow>
        (\<exists>t. sendWebhook s env b =
               (Post (trim (webhookUrl s)) b # (if showNotices s then [Notice t] else []),
                Resolved) \<and>
             sublist (toString (status r)) t)) \<and>
     (\<forall>e. fetch env (trim (webhookUrl s)) b = FetchRejects e \<longrightarrow>
        sendWebhook s env b =
          (Post (trim (webhookUrl s)) b #
           (if showNotices s then
              [ConsoleError (lit ''Simple Webhook error:'') e,
               Notice (lit ''Simple Webhook: request failed (see console).'')]
            else []),
           Resolved)) \<and>
     length (posts (fst (sendWebhook s env b))) = 1"
proof (intro impI conjI allI)
  assume u: "trim (webhookUrl s) \<noteq> []"
  show "length (posts (fst (sendWebhook s env b))) = 1"
    using u by (simp add: sendWebhook_posts)
  show "sendWebhook s env b =
          (Post (trim (webhookUrl s)) b #
           (if showNotices s then
              [ConsoleError (lit ''Simple Webhook error:'') e,
               Notice (lit ''Simple Webhook: request failed (see console).'')]
            else []),
           Resolved)"
    if "fetch env (trim (webhookUrl s)) b = FetchRejects e" for e
    using that u by (simp add: sendWebhook_def)
  show "\<exists>t. sendWebhook s env b =
               (Post (trim (webhookUrl s)) b # (if showNotices s then [Notice t] else []),
                Resolved) \<and>
             sublist (toString (status r)) t"
    if "fetch env (trim (webhookUrl s)) b = FetchResolves r \<and> \<not> ok r" for r
  proof (intro exI conjI)
    show "sendWebhook s env b =
            (Post (trim (webhookUrl s)) b #
             (if showNotices s then
                [Notice (lit ''Simple Webhook: HTTP '' @ toString (status r) @
                         lit '' '' @ statusText r)]
              else []),
             Resolved)"
      using that u by (simp add: sendWebhook_def)
    show "sublist (toString (status r))
            (lit ''Simple Webhook: HTTP '' @ toString (status r) @ lit '' '' @ statusText r)"
      by (rule sublist_toString)
  qed
qed

text \<open>
  With notices on: a 500 answer gives one POST and a notice containing \<open>500\<close>; a
  network failure gives one POST, one log line and the generic notice.
\<close>

theorem C7_witness:
  "trim (webhookUrl noisySettings) \<noteq> [] \<and>
   fetch failingEnv (trim (webhookUrl noisySettings)) JNull = FetchResolves response500 \<and>
   \<not> ok response500 \<and>
   fetch offlineEnv (trim (webhookUrl noisySettings)) JNull = FetchRejects networkDown \<and>
   (\<exists>t. sendWebhook noisySettings failingEnv JNull = ([Post hookUrl JNull, Notice t], Resolved) \<and>
        sublist (lit ''500'') t) \<and>
   sendWebhook noisySettings offlineEnv JNull =
     ([Post hookUrl JNull,
       ConsoleError (lit ''Simple Webhook error:'') networkDown,
       Notice (lit ''Simple Webhook: request failed (see console).'')],
      Resolved)"
proof -
  have u: "trim (webhookUrl noisySettings) = hookUrl" "showNotices noisySettings"
    using trim_hookUrl by (simp_all add: noisySettings_def scenarioSettings_def)
  have ne: "trim (webhookUrl noisySettings) \<noteq> []"
    using u hookUrl_not_Nil by simp
  have f1: "fetch failingEnv (trim (webhookUrl noisySettings)) JNull = FetchResolves response500 \<and> \<not> ok response500"
    by (simp add: failingEnv_def response500_def)
  have f2: "fetch offlineEnv (trim (webhookUrl noisySettings)) JNull = FetchRejects networkDown"
    by (simp add: offlineEnv_def)
  have ts: "toString (status response500) = lit ''500''"
    by (simp add: response500_def toString.simps digit_def lit_def)
  from C7_delivery_failures [of noisySettings failingEnv JNull] ne f1
  have 1: "\<exists>t. sendWebhook noisySettings failingEnv JNull = ([Post hookUrl JNull, Notice t], Resolved) \<and>
        sublist (lit ''500'') t"
    by (simp add: u ts)
  from C7_delivery_failures [of noisySettings offlineEnv JNull] ne f2
  have 2: "sendWebhook noisySettings offlineEnv JNull =
     ([Post hookUrl JNull,
       ConsoleError (lit ''Simple Webhook error:'') networkDown,
       Notice (lit ''Simple Webhook: request failed (see console).'')],
      Resolved)"
    by (simp add: u)
  show ?thesis using ne f1 f2 1 2 by simp
qed

lemma sendWebhook_autoMode: "sendWebhook (s\<lparr>autoMode := a\<rparr>) env b = sendWebhook s env b"
  by (simp add: sendWebhook_def Let_def split: FetchOutcome.splits)

lemma handleWorkspaceFileTrigger_autoMode:
  "handleWorkspaceFileTrigger (s\<lparr>autoMode := a\<rparr>) env label f =
   handleWorkspaceFileTrigger s env label f"
  by (simp add: handleWorkspaceFileTrigger_def sendWebhook_autoMode)

text \<open>
  C8. The file-open and active-leaf-change triggers post if and only if the master flag is
  on, the trigger's own toggle is on, a file is present and the URL is non-empty after
  trimming; what they do is the same for every value of the automatic-sending flag. When
  they post, they post once, with \<open>event\<close> \<open>file-open\<close> or \<open>leaf-change\<close>.
\<close>

theorem C8_focus_triggers_ignore_autoMode:
  "(posts (effects s env (OnFileOpen file)) \<noteq> [] \<longleftrightarrow>
      enabled s \<and> sendOnFileOpen s \<and> file \<noteq> None \<and> trim (webhookUrl s) \<noteq> []) \<and>
   (posts (effects s env (OnActiveLeafChange file)) \<noteq> [] \<longleftrightarrow>
      enabled s \<and> sendOnLeafChange s \<and> file \<noteq> None \<and> trim (webhookUrl s) \<noteq> []) \<and>
   effects (s\<lparr>autoMode := a\<rparr>) env (OnFileOpen file) = effects s env (OnFileOpen file) \<and>
   effects (s\<lparr>autoMode := a\<rparr>) env (OnActiveLeafChange file) =
     effects s env (OnActiveLeafChange file) \<and>
   (enabled s \<and> sendOnFileOpen s \<and> trim (webhookUrl s) \<noteq> [] \<longrightarrow>
      (\<exists>b. posts (effects s env (OnFileOpen (Some f))) = [(trim (webhookUrl s), b)] \<and>
           field b ''event'' = Some (JString (lit ''file-open'')))) \<and>
   (enabled s \<and> sendOnLeafChange s \<and> trim (webhookUrl s) \<noteq> [] \<longrightarrow>
      (\<exists>b. posts (effects s env (OnActiveLeafChange (Some f))) = [(trim (webhookUrl s), b)] \<and>
           field b ''event'' = Some (JString (lit ''leaf-change''))))"
proof (intro conjI)
  show "posts (effects s env (OnFileOpen file)) \<noteq> [] \<longleftrightarrow>
      enabled s \<and> sendOnFileOpen s \<and> file \<noteq> None \<and> trim (webhookUrl s) \<noteq> []"
    by (simp add: posts_effects posts_handleWorkspaceFileTrigger split: option.splits)
  show "posts (effects s env (OnActiveLeafChange file)) \<noteq> [] \<longleftrightarrow>
      enabled s \<and> sendOnLeafChange s \<and> file \<noteq> None \<and> trim (webhookUrl s) \<noteq> []"
    by (simp add: posts_effects posts_handleWorkspaceFileTrigger split: option.splits)
  show "effects (s\<lparr>autoMode := a\<rparr>) env (OnFileOpen file) = effects s env (OnFileOpen file)"
    by (simp add: effects_def onFileOpen_def handleWorkspaceFileTrigger_autoMode
          split: option.splits)
  show "effects (s\<lparr>autoMode := a\<rparr>) env (OnActiveLeafChange file) =
     effects s env (OnActiveLeafChange file)"
    by (simp add: effects_def onActiveLeafChange_def handleWorkspaceFileTrigger_autoMode
          split: option.splits)
  show "enabled s \<and> sendOnFileOpen s \<and> trim (webhookUrl s) \<noteq> [] \<longrightarrow>
      (\<exists>b. posts (effects s env (OnFileOpen (Some f))) = [(trim (webhookUrl s), b)] \<and>
           field b ''event'' = Some (JString (lit ''file-open'')))"
    by (simp add: posts_effects posts_handleWorkspaceFileTrigger)
  show "enabled s \<and> sendOnLeafChange s \<and> trim (webhookUrl s) \<noteq> [] \<longrightarrow>
      (\<exists>b. posts (effects s env (OnActiveLeafChange (Some f))) = [(trim (webhookUrl s), b)] \<and>
           field b ''event'' = Some (JString (lit ''leaf-change'')))"
    by (simp add: posts_effects posts_handleWorkspaceFileTrigger)
qed

text \<open>
  With automatic sending off and both toggles on, the two workspace triggers post while a
  modify event does not.
\<close>

theorem C8_witness:
  "\<not> autoMode focusSettings \<and> enabled focusSettings \<and> sendOnFileOpen focusSettings \<and>
   sendOnLeafChange focusSettings \<and> trim (webhookUrl focusSettings) \<noteq> [] \<and>
   map (\<lambda>ub. (fst ub, field (snd ub) ''event''))
     (posts (effects focusSettings scenarioEnv (OnFileOpen (Some noteAB)))) =
     [(hookUrl, Some (JString (lit ''file-open'')))] \<and>
   map (\<lambda>ub. (fst ub, field (snd ub) ''event''))
     (posts (effects focusSettings scenarioEnv (OnActiveLeafChange (Some noteAB)))) =
     [(hookUrl, Some (JString (lit ''leaf-change'')))] \<and>
   posts (effects focusSettings scenarioEnv (OnModify (AFile noteAB))) = []"
proof -
  have h: "\<not> autoMode focusSettings" "enabled focusSettings" "sendOnFileOpen focusSettings"
    "sendOnLeafChange focusSettings" "trim (webhookUrl focusSettings) = hookUrl"
    using trim_hookUrl by (simp_all add: focusSettings_def scenarioSettings_def)
  note c8 = C8_focus_triggers_ignore_autoMode [of focusSettings scenarioEnv "Some noteAB" _ noteAB]
  from c8 h hookUrl_not_Nil
  obtain b where b: "posts (effects focusSettings scenarioEnv (OnFileOpen (Some noteAB))) = [(hookUrl, b)]"
    "field b ''event'' = Some (JString (lit ''file-open''))"
    by auto
  from c8 h hookUrl_not_Nil
  obtain b' where b': "posts (effects focusSettings scenarioEnv (OnActiveLeafChange (Some noteAB))) = [(hookUrl, b')]"
    "field b' ''event'' = Some (JString (lit ''leaf-change''))"
    by auto
  have "posts (effects focusSettings scenarioEnv (OnModify (AFile noteAB))) = []"
    by (simp add: posts_effects posts_handleFileEvent h)
  then show ?thesis using h b b' hookUrl_not_Nil by simp
qed

text \<open>
  C9. When the configured URL consists of whitespace only, no operation issues a POST:
  the pre-send guard refuses and the delivery function returns without a request. Every
  POST that is issued goes to the trimmed URL, which has a non-whitespace character. The
  settings panel's URL field stores the trimmed value, so whitespace is stored as the
  empty string.
\<close>

theorem C9_blank_url_unconfigured:
  "((\<forall>c\<in>set (webhookUrl s). isWhiteSpace c) \<longrightarrow>
      posts (effects s env op) = [] \<and>
      \<not> fst (shouldSend s manual) \<and>
      sendWebhook s env b = ([], Resolved)) \<and>
   (\<forall>u b'. (u, b') \<in> set (posts (effects s env op)) \<longrightarrow>
      u = trim (webhookUrl s) \<and> (\<exists>c\<in>set u. \<not> isWhiteSpace c)) \<and>
   webhookUrl (fst (onChangeWebhookUrl s v)) = trim v \<and>
   ((\<forall>c\<in>set v. isWhiteSpace c) \<longrightarrow> webhookUrl (fst (onChangeWebhookUrl s v)) = [])"
proof (intro conjI impI allI)
  assume "\<forall>c\<in>set (webhookUrl s). isWhiteSpace c"
  then have e: "trim (webhookUrl s) = []" by (simp add: trim_Nil_iff)
  show "posts (effects s env op) = []"
    using e
    by (cases op)
       (simp_all add: posts_effects posts_handlers split: TAbstractFile.splits option.splits)
  show "\<not> fst (shouldSend s manual)" using e by (simp add: shouldSend_fst)
  show "sendWebhook s env b = ([], Resolved)" using e by (simp add: sendWebhook_def)
next
  fix u b'
  assume m: "(u, b') \<in> set (posts (effects s env op))"
  from posts_effects_url [OF m] have u: "u = trim (webhookUrl s)" and ne: "trim (webhookUrl s) \<noteq> []"
    by simp_all
  show "u = trim (webhookUrl s)" by (rule u)
  have "trim u \<noteq> []" using u ne by (simp add: trim_idem)
  then show "\<exists>c\<in>set u. \<not> isWhiteSpace c" by (simp add: trim_Nil_iff)
next
  show "webhookUrl (fst (onChangeWebhookUrl s v)) = trim v"
    by (simp add: onChangeWebhookUrl_def Let_def)
next
  assume "\<forall>c\<in>set v. isWhiteSpace c"
  then show "webhookUrl (fst (onChangeWebhookUrl s v)) = []"
    by (simp add: onChangeWebhookUrl_def Let_def trim_Nil_iff)
qed

text \<open>
  With the URL set to three spaces, a modify event and the "Send test" button post
  nothing; the scenario's URL is posted to and is not blank.
\<close>

theorem C9_witness:
  "list_all isWhiteSpace (webhookUrl blankSettings) \<and>
   webhookUrl blankSettings \<noteq> [] \<and> enabled blankSettings \<and> autoMode blankSettings \<and>
   posts (effects blankSettings scenarioEnv (OnModify (AFile noteAB))) = [] \<and>
   posts (effects blankSettings scenarioEnv SendTestClick) = [] \<and>
   (hookUrl, JNull) \<in> set (posts (fst (sendWebhook scenarioSettings scenarioEnv JNull))) \<and>
   (\<exists>c\<in>set hookUrl. \<not> isWhiteSpace c)"
proof -
  have w: "\<forall>c\<in>set (webhookUrl blankSettings). isWhiteSpace c"
    by (simp add: blankSettings_def scenarioSettings_def lit_def isWhiteSpace_def)
  have o: "webhookUrl blankSettings \<noteq> []" "enabled blankSettings" "autoMode blankSettings"
    by (simp_all add: blankSettings_def scenarioSettings_def lit_def)
  from C9_blank_url_unconfigured [of blankSettings scenarioEnv "OnModify (AFile noteAB)"] w
  have 1: "posts (effects blankSettings scenarioEnv (OnModify (AFile noteAB))) = []" by blast
  from C9_blank_url_unconfigured [of blankSettings scenarioEnv SendTestClick] w
  have 2: "posts (effects blankSettings scenarioEnv SendTestClick) = []" by blast
  have 3: "(hookUrl, JNull) \<in> set (posts (fst (sendWebhook scenarioSettings scenarioEnv JNull)))"
    using trim_hookUrl hookUrl_not_Nil by (simp add: sendWebhook_posts scenarioSettings_def)
  have m: "posts (effects scenarioSettings scenarioEnv SendTestClick) \<noteq> []"
    using trim_hookUrl hookUrl_not_Nil by (simp add: posts_effects posts_sendTestClick scenarioSettings_def)
  then obtain u b' where ub: "(u, b') \<in> set (posts (effects scenarioSettings scenarioEnv SendTestClick))"
    by (cases "posts (effects scenarioSettings scenarioEnv SendTestClick)") auto
  with C9_blank_url_unconfigured [of scenarioSettings scenarioEnv SendTestClick]
  have "u = trim (webhookUrl scenarioSettings) \<and> (\<exists>c\<in>set u. \<not> isWhiteSpace c)" by blast
  then have 4: "\<exists>c\<in>set hookUrl. \<not> isWhiteSpace c"
    using trim_hookUrl by (auto simp: scenarioSettings_def)
  have w': "list_all isWhiteSpace (webhookUrl blankSettings)"
    using w by (simp add: list_all_iff)
  show ?thesis using w' o 1 2 3 4 by blast
qed

text \<open>
  C10. With the master flag on, a non-empty URL and an active note, the ribbon action
  (and the command, which is available when automatic sending is off) posts exactly the
  payload that an automatic modify event on the same note posts: \<open>event\<close> is \<open>modify\<close> and
  the fields are the seven fields of a file payload, none of which marks the send as
  manual.
\<close>

theorem C10_manual_send_is_modify:
  "enabled s \<and> trim (webhookUrl s) \<noteq> [] \<and> getActiveFile env = Some f \<longrightarrow>
     (\<exists>b. posts (effects s env RibbonClick) = [(trim (webhookUrl s), b)] \<and>
          (\<not> autoMode s \<longrightarrow> posts (effects s env CommandSendNow) = [(trim (webhookUrl s), b)]) \<and>
          posts (effects (s\<lparr>autoMode := True\<rparr>) env (OnModify (AFile f))) =
            [(trim (webhookUrl s), b)] \<and>
          field b ''event'' = Some (JString (lit ''modify'')) \<and>
          keys b = filePayloadKeys)"
  by (simp add: posts_effects posts_handleFileEvent posts_triggerManualWebhook
        filePayloadKeys_def)

text \<open>
  With automatic sending off, the command and the ribbon action post what a modify event
  posts when automatic sending is on.
\<close>

theorem C10_witness:
  "enabled focusSettings \<and> trim (webhookUrl focusSettings) \<noteq> [] \<and>
   getActiveFile scenarioEnv = Some noteAB \<and> \<not> autoMode focusSettings \<and>
   posts (effects focusSettings scenarioEnv CommandSendNow) =
     posts (effects scenarioSettings scenarioEnv (OnModify (AFile noteAB))) \<and>
   posts (effects focusSettings scenarioEnv RibbonClick) =
     posts (effects scenarioSettings scenarioEnv (OnModify (AFile noteAB))) \<and>
   map (\<lambda>ub. field (snd ub) ''event'') (posts (effects focusSettings scenarioEnv CommandSendNow)) =
     [Some (JString (lit ''modify''))]"
proof -
  have h: "enabled focusSettings" "trim (webhookUrl focusSettings) \<noteq> []"
    "getActiveFile scenarioEnv = Some noteAB" "\<not> autoMode focusSettings"
    using trim_hookUrl hookUrl_not_Nil
    by (simp_all add: focusSettings_def scenarioSettings_def scenarioEnv_def)
  have a: "focusSettings\<lparr>autoMode := True\<rparr> = scenarioSettings\<lparr>sendOnFileOpen := True, sendOnLeafChange := True\<rparr>"
    by (simp add: focusSettings_def scenarioSettings_def)
  have p: "posts (effects (scenarioSettings\<lparr>sendOnFileOpen := True, sendOnLeafChange := True\<rparr>) scenarioEnv (OnModify (AFile noteAB))) =
    posts (effects scenarioSettings scenarioEnv (OnModify (AFile noteAB)))"
    by (simp add: posts_effects posts_handleFileEvent)
  from C10_manual_send_is_modify [of focusSettings scenarioEnv noteAB] h
  show ?thesis unfolding a p by auto
qed

end
